theory Spec2Isabelle
  imports Complex_Main
begin

section \<open>The swaption volatility structure of swaptionvolstructure.hpp\<close>

text \<open>
  The header declares the abstract class \<open>SwaptionVolatilityStructure\<close> and defines its
  inline members: three overloads each of \<open>volatility\<close> and \<open>blackVariance\<close> (by times,
  by date and tenor, by two tenors), \<open>optionDateFromTenor\<close>, \<open>maxSwapLength\<close>,
  \<open>convertDates\<close>, the date-based \<open>smileSection\<close> and two overloads of \<open>checkRange\<close>.
  Every one of these members is embedded below, statement by statement.

  \<^item> \<open>Time\<close>, \<open>Rate\<close> and \<open>Volatility\<close> are C++ doubles. The arguments of the members
    and the values a surface supplies are embedded as the real numbers they denote; the
    members compare them, and comparison of finite doubles is comparison of their
    values. Doubles that are not numbers are outside the embedding (every comparison
    with one is false, so \<open>checkRange\<close> rejects one as it rejects a negative length).
  \<^item> The one arithmetic expression of the header, \<open>vol*vol*optionTime\<close>, is computed by
    the machine: each \<open>*\<close> rounds its result to a double and gives an infinity or a
    NaN where IEEE 754 says so. Its result has the type \<open>double\<close> below, and the
    machine's \<open>*\<close> is the field \<open>times_double\<close>, about which nothing is assumed.
  \<^item> \<open>QL_REQUIRE(c, msg)\<close> throws when \<open>c\<close> is false. A member that can throw returns
    \<open>error + 'a\<close>, with one constructor of \<open>error\<close> per message of the header.
  \<^item> \<open>Date\<close> is its serial number, ordered as the integers are. \<open>Period\<close> is the pair
    of a length and a unit.
  \<^item> What the header uses and does not define (the day counter, the calendar,
    \<open>Date + Period\<close>, the order of periods, the check of the base class
    \<open>TermStructure\<close>) and what a concrete surface supplies (the pure virtual members)
    are fields of the record \<open>SwaptionVolatilityStructure\<close>: each property holds for
    every choice of them.
\<close>

subsection \<open>Data\<close>

type_synonym Time = real
type_synonym Rate = real
type_synonym Volatility = real
type_synonym Date = int

datatype TimeUnit = Days | Weeks | Months | Years

text \<open>\<open>Period::length()\<close> is the field \<open>length_period\<close>.\<close>

record Period =
  length_period :: int
  units :: TimeUnit

text \<open>The enumeration is declared outside the header, which names \<open>Following\<close> only.\<close>

datatype BusinessDayConvention =
  Following | ModifiedFollowing | Preceding | ModifiedPreceding | Unadjusted

text \<open>
  The values of a C++ double, the type behind \<open>Real\<close>: a finite number, an infinity or
  a NaN.
\<close>

datatype double = Finite real | PlusInfinity | MinusInfinity | NotANumber

text \<open>A smile section maps a strike to a volatility.\<close>

type_synonym SmileSection = "Rate \<Rightarrow> Volatility"

text \<open>
  One constructor for each failure: \<open>TimeOutOfRange\<close> is whatever
  \<open>TermStructure::checkRange\<close> throws; the others are the messages of the header
  ("negative swapLength", "swapLength is past max curve swapLength", "negative swap tenor",
  "swap tenor is past max tenor", "strike is outside the curve domain").
\<close>

datatype error =
  TimeOutOfRange
  | NegativeSwapLength
  | SwapLengthPastMax
  | NegativeSwapTenor
  | SwapTenorPastMax
  | StrikeOutsideDomain

text \<open>
  The object and its collaborators.
  \<^item> \<open>referenceDate\<close>, \<open>allowsExtrapolation\<close>: inherited state.
  \<^item> \<open>baseCheckRange t extrapolate\<close>: \<open>TermStructure::checkRange(t, extrapolate)\<close>
    returns without throwing.
  \<^item> \<open>yearFraction\<close>: \<open>dayCounter().yearFraction\<close>; \<open>calendarAdvance\<close>:
    \<open>calendar().advance\<close>; \<open>datePlus\<close>: \<open>Date + Period\<close>; \<open>periodLessEq\<close>:
    \<open>Period <= Period\<close>; \<open>times_double\<close>: the machine's \<open>*\<close> on doubles.
  \<^item> \<open>bdc\<close>: the private member \<open>bdc_\<close>.
  \<^item> \<open>maxSwapTenor\<close>, \<open>minStrike\<close>, \<open>maxStrike\<close>, \<open>smileSectionImpl\<close> (the protected
    \<open>smileSection(Time, Time)\<close>) and \<open>volatilityImpl\<close> (by times): the pure virtual
    members, total functions of their arguments.
  \<^item> \<open>volatilityImplDate_override\<close>, \<open>maxSwapLength_override\<close>: what a derived class
    puts in place of the two virtual members that have a default body here; \<open>None\<close>
    when it keeps the default. The other virtual members with a body (\<open>convertDates\<close>,
    the date-based \<open>smileSection\<close>, \<open>businessDayConvention\<close>) are embedded as the
    header defines them.
\<close>

record SwaptionVolatilityStructure =
  referenceDate :: Date
  allowsExtrapolation :: bool
  baseCheckRange :: "Time \<Rightarrow> bool \<Rightarrow> bool"
  yearFraction :: "Date \<Rightarrow> Date \<Rightarrow> Time"
  calendarAdvance :: "Date \<Rightarrow> Period \<Rightarrow> BusinessDayConvention \<Rightarrow> Date"
  datePlus :: "Date \<Rightarrow> Period \<Rightarrow> Date"
  periodLessEq :: "Period \<Rightarrow> Period \<Rightarrow> bool"
  times_double :: "double \<Rightarrow> double \<Rightarrow> double"
  bdc :: BusinessDayConvention
  maxSwapTenor :: Period
  minStrike :: Rate
  maxStrike :: Rate
  smileSectionImpl :: "Time \<Rightarrow> Time \<Rightarrow> SmileSection"
  volatilityImpl :: "Time \<Rightarrow> Time \<Rightarrow> Rate \<Rightarrow> Volatility"
  volatilityImplDate_override :: "(Date \<Rightarrow> Period \<Rightarrow> Rate \<Rightarrow> Volatility) option"
  maxSwapLength_override :: "Time option"

subsection \<open>Members\<close>

text \<open>
  Modelled from the spec: \<open>TermStructure::timeFromReference\<close> is not defined in the
  header. The spec calls it the continuous time from the surface's reference date to a
  date, per the chosen day-count convention.
\<close>

definition timeFromReference :: "SwaptionVolatilityStructure \<Rightarrow> Date \<Rightarrow> Time" where
  "timeFromReference S d = yearFraction S (referenceDate S) d"

definition businessDayConvention :: "SwaptionVolatilityStructure \<Rightarrow> BusinessDayConvention" where
  "businessDayConvention S = bdc S"

definition optionDateFromTenor :: "SwaptionVolatilityStructure \<Rightarrow> Period \<Rightarrow> Date" where
  "optionDateFromTenor S optionTenor =
     calendarAdvance S (referenceDate S) optionTenor (businessDayConvention S)"

definition maxSwapLength :: "SwaptionVolatilityStructure \<Rightarrow> Time" where
  "maxSwapLength S =
     (case maxSwapLength_override S of
        Some m \<Rightarrow> m
      | None \<Rightarrow> timeFromReference S (datePlus S (referenceDate S) (maxSwapTenor S)))"

definition convertDates ::
  "SwaptionVolatilityStructure \<Rightarrow> Date \<Rightarrow> Period \<Rightarrow> error + (Time \<times> Time)" where
  "convertDates S optionDate swapTenor =
     (let end = datePlus S optionDate swapTenor in
      if \<not> (end > optionDate) then Inl NegativeSwapTenor
      else
        let optionTime = timeFromReference S optionDate;
            timeLength = yearFraction S optionDate end
        in Inr (optionTime, timeLength))"

text \<open>\<open>checkRange(Time, Time, Rate, bool)\<close>: four requirements, in the header's order.\<close>

definition checkRange_time ::
  "SwaptionVolatilityStructure \<Rightarrow> Time \<Rightarrow> Time \<Rightarrow> Rate \<Rightarrow> bool \<Rightarrow> error + unit" where
  "checkRange_time S optionTime swapLength k extrapolate =
     (if \<not> baseCheckRange S optionTime extrapolate then Inl TimeOutOfRange
      else if \<not> (swapLength \<ge> 0) then Inl NegativeSwapLength
      else if \<not> (extrapolate \<or> allowsExtrapolation S \<or> swapLength \<le> maxSwapLength S)
        then Inl SwapLengthPastMax
      else if \<not> (extrapolate \<or> allowsExtrapolation S \<or> (k \<ge> minStrike S \<and> k \<le> maxStrike S))
        then Inl StrikeOutsideDomain
      else Inr ())"

text \<open>\<open>checkRange(const Date&, const Period&, Rate, bool)\<close>.\<close>

definition checkRange_date ::
  "SwaptionVolatilityStructure \<Rightarrow> Date \<Rightarrow> Period \<Rightarrow> Rate \<Rightarrow> bool \<Rightarrow> error + unit" where
  "checkRange_date S optionDate swapTenor k extrapolate =
     (if \<not> baseCheckRange S (timeFromReference S optionDate) extrapolate then Inl TimeOutOfRange
      else if \<not> (length_period swapTenor > 0) then Inl NegativeSwapTenor
      else if \<not> (extrapolate \<or> allowsExtrapolation S \<or> periodLessEq S swapTenor (maxSwapTenor S))
        then Inl SwapTenorPastMax
      else if \<not> (extrapolate \<or> allowsExtrapolation S \<or> (k \<ge> minStrike S \<and> k \<le> maxStrike S))
        then Inl StrikeOutsideDomain
      else Inr ())"

text \<open>
  In the three overloads of \<open>blackVariance\<close> below, \<open>vol*vol*optionTime\<close> is
  \<open>(vol*vol)*optionTime\<close>, two products of doubles.
\<close>

text \<open>
  The virtual \<open>volatilityImpl(const Date&, const Period&, Rate)\<close>: the override of a
  derived class when there is one, else the default body, which converts the dates and
  calls the time-based implementation.
\<close>

definition volatilityImplDate ::
  "SwaptionVolatilityStructure \<Rightarrow> Date \<Rightarrow> Period \<Rightarrow> Rate \<Rightarrow> error + Volatility" where
  "volatilityImplDate S optionDate swapTenor strike =
     (case volatilityImplDate_override S of
        Some f \<Rightarrow> Inr (f optionDate swapTenor strike)
      | None \<Rightarrow>
          (case convertDates S optionDate swapTenor of
             Inl e \<Rightarrow> Inl e
           | Inr p \<Rightarrow> Inr (volatilityImpl S (fst p) (snd p) strike)))"

definition volatility_time ::
  "SwaptionVolatilityStructure \<Rightarrow> Time \<Rightarrow> Time \<Rightarrow> Rate \<Rightarrow> bool \<Rightarrow> error + Volatility" where
  "volatility_time S optionTime swapLength strike extrapolate =
     (case checkRange_time S optionTime swapLength strike extrapolate of
        Inl e \<Rightarrow> Inl e
      | Inr _ \<Rightarrow> Inr (volatilityImpl S optionTime swapLength strike))"

definition blackVariance_time ::
  "SwaptionVolatilityStructure \<Rightarrow> Time \<Rightarrow> Time \<Rightarrow> Rate \<Rightarrow> bool \<Rightarrow> error + double" where
  "blackVariance_time S optionTime swapLength strike extrapolate =
     (case checkRange_time S optionTime swapLength strike extrapolate of
        Inl e \<Rightarrow> Inl e
      | Inr _ \<Rightarrow>
          (let vol = volatilityImpl S optionTime swapLength strike
           in Inr (times_double S (times_double S (Finite vol) (Finite vol))
                     (Finite optionTime))))"

definition volatility_date ::
  "SwaptionVolatilityStructure \<Rightarrow> Date \<Rightarrow> Period \<Rightarrow> Rate \<Rightarrow> bool \<Rightarrow> error + Volatility" where
  "volatility_date S optionDate swapTenor strike extrapolate =
     (case checkRange_date S optionDate swapTenor strike extrapolate of
        Inl e \<Rightarrow> Inl e
      | Inr _ \<Rightarrow> volatilityImplDate S optionDate swapTenor strike)"

definition blackVariance_date ::
  "SwaptionVolatilityStructure \<Rightarrow> Date \<Rightarrow> Period \<Rightarrow> Rate \<Rightarrow> bool \<Rightarrow> error + double" where
  "blackVariance_date S optionDate swapTenor strike extrapolate =
     (case volatility_date S optionDate swapTenor strike extrapolate of
        Inl e \<Rightarrow> Inl e
      | Inr vol \<Rightarrow>
          (case convertDates S optionDate swapTenor of
             Inl e \<Rightarrow> Inl e
           | Inr p \<Rightarrow>
               Inr (times_double S (times_double S (Finite vol) (Finite vol))
                      (Finite (fst p)))))"

definition volatility_tenor ::
  "SwaptionVolatilityStructure \<Rightarrow> Period \<Rightarrow> Period \<Rightarrow> Rate \<Rightarrow> bool \<Rightarrow> error + Volatility" where
  "volatility_tenor S optionTenor swapTenor strike extrapolate =
     (let optionDate = optionDateFromTenor S optionTenor
      in volatility_date S optionDate swapTenor strike extrapolate)"

definition blackVariance_tenor ::
  "SwaptionVolatilityStructure \<Rightarrow> Period \<Rightarrow> Period \<Rightarrow> Rate \<Rightarrow> bool \<Rightarrow> error + double" where
  "blackVariance_tenor S optionTenor swapTenor strike extrapolate =
     (let optionDate = optionDateFromTenor S optionTenor in
      case volatility_date S optionDate swapTenor strike extrapolate of
        Inl e \<Rightarrow> Inl e
      | Inr vol \<Rightarrow>
          (case convertDates S optionDate swapTenor of
             Inl e \<Rightarrow> Inl e
           | Inr p \<Rightarrow>
               Inr (times_double S (times_double S (Finite vol) (Finite vol))
                      (Finite (fst p)))))"

text \<open>The public \<open>smileSection(const Date&, const Period&)\<close>.\<close>

definition smileSection_date ::
  "SwaptionVolatilityStructure \<Rightarrow> Date \<Rightarrow> Period \<Rightarrow> error + SmileSection" where
  "smileSection_date S optionDate swapTenor =
     (case convertDates S optionDate swapTenor of
        Inl e \<Rightarrow> Inl e
      | Inr p \<Rightarrow> Inr (smileSectionImpl S (fst p) (snd p)))"

subsection \<open>A concrete surface\<close>

text \<open>
  A flat surface at 20 percent, used to run the members on concrete queries: reference
  date 0, Actual/365 day counting, a calendar without holidays, months of 30 and years of
  365 days, option times from 0 to 30 years, swap tenors up to 10 years, strikes from 0
  to 1. Its multiplication \<open>exactTimes\<close> does not round: it is the product of doubles
  wherever that product is itself a double, and follows IEEE 754 on infinities and NaN.
\<close>

fun exactTimes :: "double \<Rightarrow> double \<Rightarrow> double" where
  "exactTimes (Finite x) (Finite y) = Finite (x * y)"
| "exactTimes NotANumber b = NotANumber"
| "exactTimes a NotANumber = NotANumber"
| "exactTimes (Finite x) PlusInfinity =
     (if x = 0 then NotANumber else if 0 < x then PlusInfinity else MinusInfinity)"
| "exactTimes (Finite x) MinusInfinity =
     (if x = 0 then NotANumber else if 0 < x then MinusInfinity else PlusInfinity)"
| "exactTimes PlusInfinity (Finite y) =
     (if y = 0 then NotANumber else if 0 < y then PlusInfinity else MinusInfinity)"
| "exactTimes MinusInfinity (Finite y) =
     (if y = 0 then NotANumber else if 0 < y then MinusInfinity else PlusInfinity)"
| "exactTimes PlusInfinity PlusInfinity = PlusInfinity"
| "exactTimes PlusInfinity MinusInfinity = MinusInfinity"
| "exactTimes MinusInfinity PlusInfinity = MinusInfinity"
| "exactTimes MinusInfinity MinusInfinity = PlusInfinity"

definition daysOf :: "Period \<Rightarrow> int" where
  "daysOf p =
     length_period p * (case units p of Days \<Rightarrow> 1 | Weeks \<Rightarrow> 7 | Months \<Rightarrow> 30 | Years \<Rightarrow> 365)"

definition flatSurface :: SwaptionVolatilityStructure where
  "flatSurface =
     \<lparr> referenceDate = 0,
       allowsExtrapolation = False,
       baseCheckRange = (\<lambda>t extrapolate. 0 \<le> t \<and> (extrapolate \<or> t \<le> 30)),
       yearFraction = (\<lambda>d1 d2. real_of_int (d2 - d1) / 365),
       calendarAdvance = (\<lambda>d p c. d + daysOf p),
       datePlus = (\<lambda>d p. d + daysOf p),
       periodLessEq = (\<lambda>p q. daysOf p \<le> daysOf q),
       times_double = exactTimes,
       bdc = Following,
       maxSwapTenor = \<lparr> length_period = 10, units = Years \<rparr>,
       minStrike = 0,
       maxStrike = 1,
       smileSectionImpl = (\<lambda>t l k. 1 / 5),
       volatilityImpl = (\<lambda>t l k. 1 / 5),
       volatilityImplDate_override = None,
       maxSwapLength_override = None \<rparr>"

text \<open>
  The same surface at 25 percent: the volatility 0.25 and the option time 2 are doubles,
  and so are the products \<open>0.25 * 0.25\<close> and \<open>0.0625 * 2\<close>, which no machine rounds.
\<close>

definition quarterSurface :: SwaptionVolatilityStructure where
  "quarterSurface = flatSurface \<lparr> volatilityImpl := (\<lambda>t l k. 1 / 4) \<rparr>"

section \<open>Properties\<close>

subsection \<open>The second requirement of \<open>checkRange\<close>\<close>

text \<open>
  C1, as the code has it. The second requirement of \<open>checkRange\<close> never looks at the
  per-call flag or at the persistent setting.
  \<^item> By times: a negative swap length is rejected whatever the flags are, and once the
    base check has passed the error is "negative swapLength" exactly when
    \<open>swapLength < 0\<close>; zero is accepted.
  \<^item> By date and tenor: a tenor of length zero or less is rejected whatever the flags
    are, and once the base check has passed the error is "negative swap tenor" exactly
    when \<open>length \<le> 0\<close>; zero is rejected.
\<close>

theorem checkRange_second_requirement:
  "(swapLength < 0 \<longrightarrow> isl (checkRange_time S optionTime swapLength k extrapolate))
   \<and> (baseCheckRange S optionTime extrapolate \<longrightarrow>
        (checkRange_time S optionTime swapLength k extrapolate = Inl NegativeSwapLength)
          = (swapLength < 0))
   \<and> (length_period swapTenor \<le> 0 \<longrightarrow>
        isl (checkRange_date S optionDate swapTenor k extrapolate))
   \<and> (baseCheckRange S (timeFromReference S optionDate) extrapolate \<longrightarrow>
        (checkRange_date S optionDate swapTenor k extrapolate = Inl NegativeSwapTenor)
          = (length_period swapTenor \<le> 0))"
  by (auto simp: checkRange_time_def checkRange_date_def)

text \<open>
  On the flat surface, with the per-call flag set: a swap length of minus one and a
  tenor of minus one month are both rejected by the second requirement.
\<close>

theorem checkRange_second_requirement_witness:
  "(- 1 :: real) < 0
   \<and> baseCheckRange flatSurface 1 True
   \<and> isl (checkRange_time flatSurface 1 (- 1) (1 / 2) True)
   \<and> checkRange_time flatSurface 1 (- 1) (1 / 2) True = Inl NegativeSwapLength
   \<and> length_period \<lparr> length_period = - 1, units = Months \<rparr> \<le> 0
   \<and> baseCheckRange flatSurface (timeFromReference flatSurface 365) True
   \<and> isl (checkRange_date flatSurface 365 \<lparr> length_period = - 1, units = Months \<rparr> (1 / 2) True)
   \<and> checkRange_date flatSurface 365 \<lparr> length_period = - 1, units = Months \<rparr> (1 / 2) True
       = Inl NegativeSwapTenor"
  using checkRange_second_requirement
    [where S = flatSurface and optionTime = 1 and swapLength = "- 1" and k = "1 / 2"
       and extrapolate = True and optionDate = 365
       and swapTenor = "\<lparr> length_period = - 1, units = Months \<rparr>"]
  by (simp add: timeFromReference_def maxSwapLength_def checkRange_time_def checkRange_date_def
      flatSurface_def daysOf_def)

text \<open>
  The two entry points differ at zero: on the flat surface, with every other requirement
  met, a swap length of zero passes the time-based check and a tenor of zero days fails
  the date-based one.
\<close>

theorem zero_tenor_rejected_by_date_checkRange:
  "checkRange_time flatSurface 1 0 (1 / 2) False = Inr ()
   \<and> checkRange_date flatSurface 365 \<lparr> length_period = 0, units = Days \<rparr> (1 / 2) False
       = Inl NegativeSwapTenor"
  by (simp add: timeFromReference_def maxSwapLength_def checkRange_time_def checkRange_date_def
      flatSurface_def daysOf_def)

subsection \<open>Variance\<close>

text \<open>
  C2. Where the range check passes, each overload of \<open>blackVariance\<close> returns the square
  of what the same overload of \<open>volatility\<close> returns, times that overload's option time:
  the argument \<open>optionTime\<close> by times; the first component of \<open>convertDates\<close> (the
  option time, not the swap's time length) by date and by tenor. The square and the
  product are the machine's: \<open>vol * vol\<close> and then \<open>* optionTime\<close>, as doubles are
  multiplied, whatever rounding or overflow that brings.
\<close>

theorem blackVariance_is_squared_volatility_times_optionTime:
  "(checkRange_time S optionTime swapLength strike extrapolate = Inr () \<longrightarrow>
      (\<exists>vol. volatility_time S optionTime swapLength strike extrapolate = Inr vol
         \<and> blackVariance_time S optionTime swapLength strike extrapolate
             = Inr (times_double S (times_double S (Finite vol) (Finite vol))
                      (Finite optionTime))))
   \<and> (checkRange_date S optionDate swapTenor strike extrapolate = Inr ()
        \<and> convertDates S optionDate swapTenor = Inr (convertedTime, timeLength) \<longrightarrow>
      (\<exists>vol. volatility_date S optionDate swapTenor strike extrapolate = Inr vol
         \<and> blackVariance_date S optionDate swapTenor strike extrapolate
             = Inr (times_double S (times_double S (Finite vol) (Finite vol))
                      (Finite convertedTime))))
   \<and> (checkRange_date S (optionDateFromTenor S optionTenor) swapTenor strike extrapolate = Inr ()
        \<and> convertDates S (optionDateFromTenor S optionTenor) swapTenor
            = Inr (convertedTime', timeLength') \<longrightarrow>
      (\<exists>vol. volatility_tenor S optionTenor swapTenor strike extrapolate = Inr vol
         \<and> blackVariance_tenor S optionTenor swapTenor strike extrapolate
             = Inr (times_double S (times_double S (Finite vol) (Finite vol))
                      (Finite convertedTime'))))"
  by (auto simp: volatility_time_def blackVariance_time_def volatility_date_def
      blackVariance_date_def volatility_tenor_def blackVariance_tenor_def volatilityImplDate_def
      Let_def split: option.splits)

text \<open>
  On the surface at 25 percent, two years out on a one-year swap: the option time is 2,
  the time length is 1, and the variance is \<open>(0.25 * 0.25) * 2 = 0.125\<close> in all three
  forms, each product being exact in doubles.
\<close>

theorem blackVariance_is_squared_volatility_times_optionTime_witness:
  "checkRange_time quarterSurface 2 1 (1 / 2) False = Inr ()
   \<and> volatility_time quarterSurface 2 1 (1 / 2) False = Inr (1 / 4)
   \<and> blackVariance_time quarterSurface 2 1 (1 / 2) False = Inr (Finite (1 / 8))
   \<and> checkRange_date quarterSurface 730 \<lparr> length_period = 1, units = Years \<rparr> (1 / 2) False
       = Inr ()
   \<and> convertDates quarterSurface 730 \<lparr> length_period = 1, units = Years \<rparr> = Inr (2, 1)
   \<and> volatility_date quarterSurface 730 \<lparr> length_period = 1, units = Years \<rparr> (1 / 2) False
       = Inr (1 / 4)
   \<and> blackVariance_date quarterSurface 730 \<lparr> length_period = 1, units = Years \<rparr> (1 / 2) False
       = Inr (Finite (1 / 8))
   \<and> optionDateFromTenor quarterSurface \<lparr> length_period = 2, units = Years \<rparr> = 730
   \<and> blackVariance_tenor quarterSurface \<lparr> length_period = 2, units = Years \<rparr>
        \<lparr> length_period = 1, units = Years \<rparr> (1 / 2) False
       = Inr (Finite (1 / 8))"
  using blackVariance_is_squared_volatility_times_optionTime
    [where S = quarterSurface and optionTime = 2 and swapLength = 1 and strike = "1 / 2"
       and extrapolate = False and optionDate = 730
       and swapTenor = "\<lparr> length_period = 1, units = Years \<rparr>"
       and convertedTime = 2 and timeLength = 1
       and optionTenor = "\<lparr> length_period = 2, units = Years \<rparr>"
       and convertedTime' = 2 and timeLength' = 1]
  by (simp add: timeFromReference_def maxSwapLength_def convertDates_def checkRange_time_def
      checkRange_date_def volatilityImplDate_def volatility_time_def blackVariance_time_def
      volatility_date_def blackVariance_date_def businessDayConvention_def
      optionDateFromTenor_def volatility_tenor_def blackVariance_tenor_def
      quarterSurface_def flatSurface_def daysOf_def)

subsection \<open>Conversion of dates\<close>

text \<open>
  C3. With \<open>end = optionDate + swapTenor\<close>, \<open>convertDates\<close> throws exactly when
  \<open>end \<le> optionDate\<close>, and otherwise returns the time from the reference date to
  \<open>optionDate\<close> together with the year fraction from \<open>optionDate\<close> to \<open>end\<close>. It has no
  extrapolation argument and the persistent setting does not change its result. So where
  \<open>Date + Period\<close> moves no date forward by a tenor of length zero or less, every such
  tenor is rejected.
\<close>

theorem convertDates_result:
  "convertDates S optionDate swapTenor =
     (if datePlus S optionDate swapTenor \<le> optionDate then Inl NegativeSwapTenor
      else Inr (timeFromReference S optionDate,
                yearFraction S optionDate (datePlus S optionDate swapTenor)))
   \<and> isl (convertDates S optionDate swapTenor) = (datePlus S optionDate swapTenor \<le> optionDate)
   \<and> convertDates (S\<lparr>allowsExtrapolation := b\<rparr>) optionDate swapTenor
       = convertDates S optionDate swapTenor
   \<and> ((length_period swapTenor \<le> 0 \<longrightarrow> datePlus S optionDate swapTenor \<le> optionDate) \<longrightarrow>
        length_period swapTenor \<le> 0 \<longrightarrow>
        convertDates S optionDate swapTenor = Inl NegativeSwapTenor)"
  by (auto simp: convertDates_def timeFromReference_def Let_def)

theorem convertDates_result_witness:
  "length_period \<lparr> length_period = - 1, units = Months \<rparr> \<le> 0
   \<and> datePlus flatSurface 730 \<lparr> length_period = - 1, units = Months \<rparr> \<le> 730
   \<and> convertDates flatSurface 730 \<lparr> length_period = - 1, units = Months \<rparr>
       = Inl NegativeSwapTenor
   \<and> convertDates (flatSurface\<lparr>allowsExtrapolation := True\<rparr>) 730
        \<lparr> length_period = - 1, units = Months \<rparr>
       = Inl NegativeSwapTenor"
  using convertDates_result
    [where S = flatSurface and optionDate = 730 and b = True
       and swapTenor = "\<lparr> length_period = - 1, units = Months \<rparr>"]
  by (simp add: flatSurface_def daysOf_def)

subsection \<open>Agreement of the overloads\<close>

text \<open>
  C4. When the derived class keeps the default date-based \<open>volatilityImpl\<close>,
  \<open>convertDates\<close> turns the date and the tenor into the coordinates \<open>(t, l)\<close>, and both
  range checks pass, the date-based \<open>volatility\<close> returns what the time-based
  \<open>volatility\<close> returns at \<open>(t, l)\<close>, namely the surface's value there.
\<close>

theorem volatility_date_agrees_with_volatility_time:
  assumes "volatilityImplDate_override S = None"
    and "convertDates S optionDate swapTenor = Inr (t, l)"
    and "checkRange_date S optionDate swapTenor strike extrapolate = Inr ()"
    and "checkRange_time S t l strike extrapolate = Inr ()"
  shows "volatility_date S optionDate swapTenor strike extrapolate
           = volatility_time S t l strike extrapolate
     \<and> volatility_time S t l strike extrapolate = Inr (volatilityImpl S t l strike)"
  using assms by (simp add: volatility_date_def volatility_time_def volatilityImplDate_def)

theorem volatility_date_agrees_with_volatility_time_witness:
  "volatilityImplDate_override flatSurface = None
   \<and> convertDates flatSurface 730 \<lparr> length_period = 1, units = Years \<rparr> = Inr (2, 1)
   \<and> checkRange_date flatSurface 730 \<lparr> length_period = 1, units = Years \<rparr> (1 / 2) False = Inr ()
   \<and> checkRange_time flatSurface 2 1 (1 / 2) False = Inr ()
   \<and> volatility_date flatSurface 730 \<lparr> length_period = 1, units = Years \<rparr> (1 / 2) False
       = volatility_time flatSurface 2 1 (1 / 2) False
   \<and> volatility_time flatSurface 2 1 (1 / 2) False = Inr (1 / 5)"
proof -
  have override: "volatilityImplDate_override flatSurface = None"
    by (simp add: flatSurface_def)
  have converted: "convertDates flatSurface 730 \<lparr> length_period = 1, units = Years \<rparr> = Inr (2, 1)"
    by (simp add: convertDates_def timeFromReference_def flatSurface_def daysOf_def)
  have by_date:
    "checkRange_date flatSurface 730 \<lparr> length_period = 1, units = Years \<rparr> (1 / 2) False = Inr ()"
    by (simp add: checkRange_date_def timeFromReference_def flatSurface_def daysOf_def)
  have by_time: "checkRange_time flatSurface 2 1 (1 / 2) False = Inr ()"
    by (simp add: checkRange_time_def maxSwapLength_def timeFromReference_def flatSurface_def daysOf_def)
  from volatility_date_agrees_with_volatility_time [OF override converted by_date by_time]
  show ?thesis
    using override converted by_date by_time by (simp add: flatSurface_def)
qed

subsection \<open>The maximum swap length\<close>

text \<open>
  C5. Take a strike within the strike bounds and the persistent setting off, on a surface
  that keeps the contract of its limits: \<open>maxSwapLength\<close>, the largest swap length for
  which the surface returns volatilities, is not negative.
  \<^item> By times, for an option time that the base check accepts with and without the
    per-call flag: the query at exactly \<open>maxSwapLength\<close> with \<open>extrapolate = false\<close>
    passes the range check, \<open>volatility\<close> returns the surface's value and
    \<open>blackVariance\<close> returns; a query at a strictly greater length throws "swapLength is
    past max curve swapLength" with \<open>extrapolate = false\<close> and returns with
    \<open>extrapolate = true\<close>.
  \<^item> By date and tenor the third requirement compares tenors, and the same holds at the
    tenor \<open>maxSwapTenor\<close> and past it: for an option date that the base check accepts,
    tenors of positive length whose end dates are after the option date, and an order
    of periods that is reflexive at \<open>maxSwapTenor\<close>.
\<close>

theorem extrapolation_gating_at_maxSwapLength:
  assumes "minStrike S \<le> strike" and "strike \<le> maxStrike S"
    and "\<not> allowsExtrapolation S"
  shows "(baseCheckRange S optionTime False \<and> baseCheckRange S optionTime True
          \<and> 0 \<le> maxSwapLength S \<longrightarrow>
            checkRange_time S optionTime (maxSwapLength S) strike False = Inr ()
            \<and> volatility_time S optionTime (maxSwapLength S) strike False
                = Inr (volatilityImpl S optionTime (maxSwapLength S) strike)
            \<and> \<not> isl (blackVariance_time S optionTime (maxSwapLength S) strike False)
            \<and> (maxSwapLength S < swapLength \<longrightarrow>
                  checkRange_time S optionTime swapLength strike False = Inl SwapLengthPastMax
                  \<and> volatility_time S optionTime swapLength strike False
                      = Inl SwapLengthPastMax
                  \<and> blackVariance_time S optionTime swapLength strike False
                      = Inl SwapLengthPastMax
                  \<and> checkRange_time S optionTime swapLength strike True = Inr ()
                  \<and> volatility_time S optionTime swapLength strike True
                      = Inr (volatilityImpl S optionTime swapLength strike)
                  \<and> \<not> isl (blackVariance_time S optionTime swapLength strike True)))
     \<and> (baseCheckRange S (timeFromReference S optionDate) False
          \<and> baseCheckRange S (timeFromReference S optionDate) True
          \<and> 0 < length_period (maxSwapTenor S)
          \<and> periodLessEq S (maxSwapTenor S) (maxSwapTenor S)
          \<and> optionDate < datePlus S optionDate (maxSwapTenor S) \<longrightarrow>
            checkRange_date S optionDate (maxSwapTenor S) strike False = Inr ()
            \<and> \<not> isl (volatility_date S optionDate (maxSwapTenor S) strike False)
            \<and> \<not> isl (blackVariance_date S optionDate (maxSwapTenor S) strike False)
            \<and> (0 < length_period swapTenor
                  \<and> \<not> periodLessEq S swapTenor (maxSwapTenor S)
                  \<and> optionDate < datePlus S optionDate swapTenor \<longrightarrow>
                  checkRange_date S optionDate swapTenor strike False = Inl SwapTenorPastMax
                  \<and> volatility_date S optionDate swapTenor strike False
                      = Inl SwapTenorPastMax
                  \<and> blackVariance_date S optionDate swapTenor strike False
                      = Inl SwapTenorPastMax
                  \<and> checkRange_date S optionDate swapTenor strike True = Inr ()
                  \<and> \<not> isl (volatility_date S optionDate swapTenor strike True)
                  \<and> \<not> isl (blackVariance_date S optionDate swapTenor strike True)))"
  using assms
  by (auto simp: volatility_time_def blackVariance_time_def volatility_date_def
      blackVariance_date_def checkRange_time_def checkRange_date_def volatilityImplDate_def
      convertDates_def Let_def split: option.splits)

text \<open>
  The flat surface has a maximum swap length of 10 and a maximum swap tenor of ten
  years: queries at 10 and at 11, by times and by date.
\<close>

theorem extrapolation_gating_at_maxSwapLength_witness:
  "minStrike flatSurface \<le> 1 / 2 \<and> 1 / 2 \<le> maxStrike flatSurface
   \<and> \<not> allowsExtrapolation flatSurface
   \<and> baseCheckRange flatSurface 1 False \<and> baseCheckRange flatSurface 1 True
   \<and> 0 \<le> maxSwapLength flatSurface
   \<and> maxSwapLength flatSurface = 10
   \<and> volatility_time flatSurface 1 10 (1 / 2) False = Inr (1 / 5)
   \<and> \<not> isl (blackVariance_time flatSurface 1 10 (1 / 2) False)
   \<and> volatility_time flatSurface 1 11 (1 / 2) False = Inl SwapLengthPastMax
   \<and> blackVariance_time flatSurface 1 11 (1 / 2) False = Inl SwapLengthPastMax
   \<and> volatility_time flatSurface 1 11 (1 / 2) True = Inr (1 / 5)
   \<and> \<not> isl (blackVariance_time flatSurface 1 11 (1 / 2) True)
   \<and> baseCheckRange flatSurface (timeFromReference flatSurface 730) False
   \<and> baseCheckRange flatSurface (timeFromReference flatSurface 730) True
   \<and> maxSwapTenor flatSurface = \<lparr> length_period = 10, units = Years \<rparr>
   \<and> periodLessEq flatSurface (maxSwapTenor flatSurface) (maxSwapTenor flatSurface)
   \<and> 730 < datePlus flatSurface 730 (maxSwapTenor flatSurface)
   \<and> \<not> periodLessEq flatSurface \<lparr> length_period = 11, units = Years \<rparr>
         (maxSwapTenor flatSurface)
   \<and> 730 < datePlus flatSurface 730 \<lparr> length_period = 11, units = Years \<rparr>
   \<and> \<not> isl (volatility_date flatSurface 730 \<lparr> length_period = 10, units = Years \<rparr>
             (1 / 2) False)
   \<and> volatility_date flatSurface 730 \<lparr> length_period = 11, units = Years \<rparr> (1 / 2) False
       = Inl SwapTenorPastMax
   \<and> blackVariance_date flatSurface 730 \<lparr> length_period = 11, units = Years \<rparr> (1 / 2) False
       = Inl SwapTenorPastMax
   \<and> \<not> isl (volatility_date flatSurface 730 \<lparr> length_period = 11, units = Years \<rparr>
             (1 / 2) True)
   \<and> \<not> isl (blackVariance_date flatSurface 730 \<lparr> length_period = 11, units = Years \<rparr>
             (1 / 2) True)"
proof -
  have lo: "minStrike flatSurface \<le> 1 / 2" and hi: "1 / 2 \<le> maxStrike flatSurface"
    and off: "\<not> allowsExtrapolation flatSurface"
    by (simp_all add: flatSurface_def)
  have limit: "maxSwapLength flatSurface = 10"
    by (simp add: maxSwapLength_def timeFromReference_def flatSurface_def daysOf_def)
  have tenor: "maxSwapTenor flatSurface = \<lparr> length_period = 10, units = Years \<rparr>"
    by (simp add: flatSurface_def)
  have flat: "volatilityImpl flatSurface = (\<lambda>t l k. 1 / 5)"
    by (simp add: flatSurface_def)
  have by_time: "baseCheckRange flatSurface 1 False" "baseCheckRange flatSurface 1 True"
    by (simp_all add: flatSurface_def)
  have by_date:
    "baseCheckRange flatSurface (timeFromReference flatSurface 730) False"
    "baseCheckRange flatSurface (timeFromReference flatSurface 730) True"
    by (simp_all add: timeFromReference_def flatSurface_def)
  have at_max:
    "periodLessEq flatSurface \<lparr> length_period = 10, units = Years \<rparr>
       \<lparr> length_period = 10, units = Years \<rparr>"
    "730 < datePlus flatSurface 730 \<lparr> length_period = 10, units = Years \<rparr>"
    by (simp_all add: flatSurface_def daysOf_def)
  have past_max:
    "\<not> periodLessEq flatSurface \<lparr> length_period = 11, units = Years \<rparr>
         \<lparr> length_period = 10, units = Years \<rparr>"
    "730 < datePlus flatSurface 730 \<lparr> length_period = 11, units = Years \<rparr>"
    by (simp_all add: flatSurface_def daysOf_def)
  from extrapolation_gating_at_maxSwapLength
    [OF lo hi off, where optionTime = 1 and swapLength = 11 and optionDate = 730
       and swapTenor = "\<lparr> length_period = 11, units = Years \<rparr>"]
  show ?thesis
    using lo hi off by_time by_date at_max past_max
    by (simp add: limit tenor flat)
qed

subsection \<open>The strike requirement\<close>

text \<open>
  C6, as the code has it. Take a strike strictly outside \<open>[minStrike, maxStrike]\<close> and an
  option time (or date) that the base check accepts.
  \<^item> By times, with a swap length that is not negative: \<open>volatility\<close> and
    \<open>blackVariance\<close> throw exactly when the per-call flag is false and the persistent
    setting is off.
  \<^item> By date and tenor, with a tenor of strictly positive length whose end date is after
    the option date: the same.
  \<^item> On a surface with \<open>minStrike \<le> maxStrike\<close>, a strike equal to either bound never
    fails the strike requirement, at either entry point and whatever the flags are.
\<close>

theorem strike_outside_domain_gating:
  "((strike < minStrike S \<or> maxStrike S < strike)
      \<and> baseCheckRange S optionTime extrapolate \<and> 0 \<le> swapLength \<longrightarrow>
      isl (volatility_time S optionTime swapLength strike extrapolate)
        = (\<not> extrapolate \<and> \<not> allowsExtrapolation S)
      \<and> isl (blackVariance_time S optionTime swapLength strike extrapolate)
        = (\<not> extrapolate \<and> \<not> allowsExtrapolation S))
   \<and> ((strike < minStrike S \<or> maxStrike S < strike)
      \<and> baseCheckRange S (timeFromReference S optionDate) extrapolate
      \<and> 0 < length_period swapTenor \<and> optionDate < datePlus S optionDate swapTenor \<longrightarrow>
      isl (volatility_date S optionDate swapTenor strike extrapolate)
        = (\<not> extrapolate \<and> \<not> allowsExtrapolation S)
      \<and> isl (blackVariance_date S optionDate swapTenor strike extrapolate)
        = (\<not> extrapolate \<and> \<not> allowsExtrapolation S))
   \<and> (minStrike S \<le> maxStrike S \<and> (bound = minStrike S \<or> bound = maxStrike S) \<longrightarrow>
      checkRange_time S optionTime swapLength bound extrapolate \<noteq> Inl StrikeOutsideDomain
      \<and> checkRange_date S optionDate swapTenor bound extrapolate \<noteq> Inl StrikeOutsideDomain)"
  by (auto simp: volatility_time_def blackVariance_time_def volatility_date_def
      blackVariance_date_def checkRange_time_def checkRange_date_def volatilityImplDate_def
      convertDates_def Let_def split: option.splits)

text \<open>
  On the flat surface (strikes from 0 to 1) at strike 2: an error without the flag, a
  value with it, by times and by date; and the strike 1 passes.
\<close>

theorem strike_outside_domain_gating_witness:
  "maxStrike flatSurface < 2
   \<and> baseCheckRange flatSurface 2 False \<and> baseCheckRange flatSurface 2 True
   \<and> baseCheckRange flatSurface (timeFromReference flatSurface 730) False
   \<and> baseCheckRange flatSurface (timeFromReference flatSurface 730) True
   \<and> 0 < length_period \<lparr> length_period = 1, units = Years \<rparr>
   \<and> 730 < datePlus flatSurface 730 \<lparr> length_period = 1, units = Years \<rparr>
   \<and> isl (volatility_time flatSurface 2 1 2 False)
   \<and> \<not> isl (volatility_time flatSurface 2 1 2 True)
   \<and> isl (blackVariance_time flatSurface 2 1 2 False)
   \<and> \<not> isl (blackVariance_time flatSurface 2 1 2 True)
   \<and> isl (volatility_date flatSurface 730 \<lparr> length_period = 1, units = Years \<rparr> 2 False)
   \<and> \<not> isl (volatility_date flatSurface 730 \<lparr> length_period = 1, units = Years \<rparr> 2 True)
   \<and> isl (blackVariance_date flatSurface 730 \<lparr> length_period = 1, units = Years \<rparr> 2 False)
   \<and> \<not> isl (blackVariance_date flatSurface 730 \<lparr> length_period = 1, units = Years \<rparr> 2 True)
   \<and> minStrike flatSurface \<le> maxStrike flatSurface
   \<and> checkRange_time flatSurface 2 1 1 False \<noteq> Inl StrikeOutsideDomain
   \<and> checkRange_date flatSurface 730 \<lparr> length_period = 1, units = Years \<rparr> 1 False
       \<noteq> Inl StrikeOutsideDomain"
  using
    strike_outside_domain_gating
      [where S = flatSurface and strike = 2 and optionTime = 2 and swapLength = 1
         and extrapolate = False and optionDate = 730
         and swapTenor = "\<lparr> length_period = 1, units = Years \<rparr>" and bound = 1]
    strike_outside_domain_gating
      [where S = flatSurface and strike = 2 and optionTime = 2 and swapLength = 1
         and extrapolate = True and optionDate = 730
         and swapTenor = "\<lparr> length_period = 1, units = Years \<rparr>" and bound = 1]
  by (simp add: timeFromReference_def flatSurface_def daysOf_def)

text \<open>
  A tenor of zero days is a non-negative tenor. On the flat surface, with an option date
  in range and the per-call flag set, the date-based \<open>volatility\<close> at strike 2 still
  throws: the second requirement of the date-based check rejects the tenor.
\<close>

theorem zero_tenor_throws_with_extrapolation:
  "baseCheckRange flatSurface (timeFromReference flatSurface 365) True
   \<and> 0 \<le> length_period \<lparr> length_period = 0, units = Days \<rparr>
   \<and> maxStrike flatSurface < 2
   \<and> volatility_date flatSurface 365 \<lparr> length_period = 0, units = Days \<rparr> 2 True
       = Inl NegativeSwapTenor"
  by (simp add: volatility_date_def checkRange_date_def timeFromReference_def flatSurface_def daysOf_def)

subsection \<open>Tenor-based overloads\<close>

text \<open>
  C7. For every option tenor, swap tenor, strike and extrapolation flag, the tenor-based
  \<open>volatility\<close> and \<open>blackVariance\<close> return exactly what the date-based overloads return
  at the option date \<open>optionDateFromTenor optionTenor\<close>, and that date is the reference
  date advanced by the option tenor under the surface's calendar and business-day
  convention.
\<close>

theorem tenor_overloads_delegate_to_date_overloads:
  "volatility_tenor S optionTenor swapTenor strike extrapolate =
     volatility_date S (optionDateFromTenor S optionTenor) swapTenor strike extrapolate
   \<and> blackVariance_tenor S optionTenor swapTenor strike extrapolate =
     blackVariance_date S (optionDateFromTenor S optionTenor) swapTenor strike extrapolate
   \<and> optionDateFromTenor S optionTenor =
     calendarAdvance S (referenceDate S) optionTenor (businessDayConvention S)"
  by (simp add: volatility_tenor_def blackVariance_tenor_def blackVariance_date_def
      optionDateFromTenor_def Let_def)

theorem tenor_overloads_delegate_to_date_overloads_witness:
  "optionDateFromTenor flatSurface \<lparr> length_period = 2, units = Years \<rparr> = 730
   \<and> volatility_tenor flatSurface \<lparr> length_period = 2, units = Years \<rparr>
        \<lparr> length_period = 1, units = Years \<rparr> (1 / 2) False
       = volatility_date flatSurface 730 \<lparr> length_period = 1, units = Years \<rparr> (1 / 2) False
   \<and> blackVariance_tenor flatSurface \<lparr> length_period = 2, units = Years \<rparr>
        \<lparr> length_period = 1, units = Years \<rparr> (1 / 2) False
       = blackVariance_date flatSurface 730 \<lparr> length_period = 1, units = Years \<rparr> (1 / 2) False"
proof -
  have date: "calendarAdvance flatSurface (referenceDate flatSurface)
      \<lparr> length_period = 2, units = Years \<rparr> (businessDayConvention flatSurface) = 730"
    by (simp add: flatSurface_def daysOf_def)
  from tenor_overloads_delegate_to_date_overloads
    [of flatSurface "\<lparr> length_period = 2, units = Years \<rparr>"
       "\<lparr> length_period = 1, units = Years \<rparr>" "1 / 2" False]
  show ?thesis
    unfolding date by simp
qed

subsection \<open>The default maximum swap length\<close>

text \<open>
  C8. When the derived class does not override it, \<open>maxSwapLength\<close> is the time from the
  reference date to \<open>referenceDate + maxSwapTenor\<close>; and whenever \<open>convertDates\<close>
  converts \<open>(referenceDate, maxSwapTenor)\<close>, the time length it returns is that same
  number.
\<close>

theorem default_maxSwapLength:
  assumes "maxSwapLength_override S = None"
  shows "maxSwapLength S
           = timeFromReference S (datePlus S (referenceDate S) (maxSwapTenor S))
     \<and> (\<forall>t l. convertDates S (referenceDate S) (maxSwapTenor S) = Inr (t, l) \<longrightarrow>
           maxSwapLength S = l)"
  using assms
  by (auto simp: maxSwapLength_def convertDates_def timeFromReference_def Let_def
      split: if_splits)

theorem default_maxSwapLength_witness:
  "maxSwapLength_override flatSurface = None
   \<and> convertDates flatSurface (referenceDate flatSurface) (maxSwapTenor flatSurface)
       = Inr (0, 10)
   \<and> maxSwapLength flatSurface = 10"
proof -
  have kept: "maxSwapLength_override flatSurface = None"
    by (simp add: flatSurface_def)
  have converted:
    "convertDates flatSurface (referenceDate flatSurface) (maxSwapTenor flatSurface) = Inr (0, 10)"
    by (simp add: convertDates_def timeFromReference_def flatSurface_def daysOf_def)
  from default_maxSwapLength [OF kept] converted
  have "maxSwapLength flatSurface = 10"
    by blast
  with kept converted show ?thesis
    by simp
qed

subsection \<open>The date-based smile section\<close>

text \<open>
  C10. The date-based \<open>smileSection\<close> calls no \<open>checkRange\<close>. For a tenor whose end date
  is after the option date (as is the end date of every positive tenor, where
  \<open>Date + Period\<close> moves a date forward by a positive tenor) it returns the smile
  section of the time-based factory at the converted coordinates. The only error it
  returns is the "negative swap tenor" of \<open>convertDates\<close>. Its result is the same
  whatever the strike bounds, the maximum tenor and length, the base check and the
  persistent setting are.
\<close>

theorem smileSection_date_has_no_range_check:
  "(optionDate < datePlus S optionDate swapTenor \<longrightarrow>
      smileSection_date S optionDate swapTenor
        = Inr (smileSectionImpl S (timeFromReference S optionDate)
                 (yearFraction S optionDate (datePlus S optionDate swapTenor))))
   \<and> ((0 < length_period swapTenor \<longrightarrow> optionDate < datePlus S optionDate swapTenor) \<longrightarrow>
        0 < length_period swapTenor \<longrightarrow> \<not> isl (smileSection_date S optionDate swapTenor))
   \<and> (smileSection_date S optionDate swapTenor = Inl err \<longrightarrow>
        err = NegativeSwapTenor \<and> convertDates S optionDate swapTenor = Inl err)
   \<and> smileSection_date
        (S\<lparr>allowsExtrapolation := ae, baseCheckRange := bc, maxSwapTenor := mt,
           minStrike := lo, maxStrike := hi, maxSwapLength_override := ml\<rparr>)
        optionDate swapTenor
      = smileSection_date S optionDate swapTenor"
  by (auto simp: smileSection_date_def convertDates_def timeFromReference_def Let_def
      split: if_splits)

text \<open>
  On the flat surface, a hundred years out on a fifty-year swap: past the maximum time
  and the maximum tenor, \<open>volatility\<close> throws and \<open>smileSection\<close> returns.
\<close>

theorem smileSection_date_has_no_range_check_witness:
  "0 < length_period \<lparr> length_period = 50, units = Years \<rparr>
   \<and> 36500 < datePlus flatSurface 36500 \<lparr> length_period = 50, units = Years \<rparr>
   \<and> volatility_date flatSurface 36500 \<lparr> length_period = 50, units = Years \<rparr> (1 / 2) False
       = Inl TimeOutOfRange
   \<and> \<not> isl (smileSection_date flatSurface 36500 \<lparr> length_period = 50, units = Years \<rparr>)
   \<and> smileSection_date flatSurface 36500 \<lparr> length_period = 50, units = Years \<rparr>
       = Inr (smileSectionImpl flatSurface 100 50)"
  using smileSection_date_has_no_range_check
    [where S = flatSurface and optionDate = 36500
       and swapTenor = "\<lparr> length_period = 50, units = Years \<rparr>"]
  by (simp add: volatility_date_def checkRange_date_def timeFromReference_def flatSurface_def daysOf_def)

end
